theory Spec2Isabelle
  imports Main "HOL-Library.Sublist"
begin

section \<open>JavaScript values\<close>

text \<open>
  The values that reach \<open>src/background/index.mjs\<close> from storage and from the network are
  JSON values, here as parsed: \<open>JObj\<close> holds the properties of an object, looked up by
  key. A property read can also give \<open>undefined\<close>: a \<open>jsval\<close> is a JSON value or
  \<open>None\<close> for \<open>undefined\<close>.
\<close>

datatype json =
    JNull
  | JBool bool
  | JNum int
  | JStr string
  | JArr "json list"
  | JObj "(string \<times> json) list"

type_synonym jsval = "json option"

text \<open>JavaScript's ToBoolean, as \<open>if (v)\<close> and \<open>!v\<close> apply it.\<close>

fun truthy :: "jsval \<Rightarrow> bool" where
  "truthy None = False"
| "truthy (Some JNull) = False"
| "truthy (Some (JBool b)) = b"
| "truthy (Some (JNum n)) = (n \<noteq> 0)"
| "truthy (Some (JStr s)) = (s \<noteq> [])"
| "truthy (Some (JArr xs)) = True"
| "truthy (Some (JObj kvs)) = True"

text \<open>\<open>v == null\<close> (loose equality): true of \<open>null\<close> and of \<open>undefined\<close> only.\<close>

fun loose_null :: "jsval \<Rightarrow> bool" where
  "loose_null None = True"
| "loose_null (Some JNull) = True"
| "loose_null (Some v) = False"

text \<open>A thrown \<open>Error\<close> object; only its \<open>message\<close> is read by the program.\<close>

datatype error = Error (message: string)

text \<open>\<open>s.includes(p)\<close>: \<open>p\<close> occurs in \<open>s\<close> as a contiguous run.\<close>

fun str_includes :: "string \<Rightarrow> string \<Rightarrow> bool" where
  "str_includes [] p = (p = [])"
| "str_includes (c # cs) p = (prefix p (c # cs) \<or> str_includes cs p)"

text \<open>\<open>s.replace(p, r)\<close> with a string pattern: the first occurrence only.\<close>

fun str_replace :: "string \<Rightarrow> string \<Rightarrow> string \<Rightarrow> string" where
  "str_replace [] p r = (if p = [] then r else [])"
| "str_replace (c # cs) p r =
     (if prefix p (c # cs) then r @ drop (length p) (c # cs)
      else c # str_replace cs p r)"

text \<open>
  \<open>data.accessToken\<close> on a parsed JSON body: a TypeError on \<open>null\<close>, the property of an
  object, \<open>undefined\<close> on every other value (the message is V8's wording).
\<close>

definition null_read_message :: string where
  "null_read_message =
     ''Cannot read properties of null (reading '' @ [CHR 0x27] @ ''accessToken'' @ [CHR 0x27] @ '')''"

fun prop_accessToken :: "json \<Rightarrow> error + jsval" where
  "prop_accessToken JNull = Inl (Error null_read_message)"
| "prop_accessToken (JObj kvs) = Inr (map_of kvs ''accessToken'')"
| "prop_accessToken v = Inr None"

section \<open>Data model\<close>

text \<open>The configuration object \<open>getUserConfig()\<close> resolves to (the fields read here).\<close>

record user_config =
  modelName :: string
  apiKey :: string
  accessToken :: jsval

text \<open>The session object of a request envelope.\<close>

record session =
  messageId :: jsval
  parentMessageId :: jsval
  question :: string
  extra :: "(string \<times> json) list"

text \<open>\<open>msg.session\<close>: \<open>None\<close> when the envelope carries no session payload.\<close>

record msg =
  msg_session :: "session option"

text \<open>
  What \<open>fetch(...)\<close> resolves to: a rejection with its message, or a response with its
  status and its body as \<open>resp.json()\<close> parses it (\<open>None\<close>: the body is not JSON and
  \<open>resp.json()\<close> rejects).
\<close>

datatype fetch_outcome =
    FetchRejected string
  | Response nat "json option"

text \<open>
  What the imported modules provide and the sources do not hold: the four membership
  lists of \<open>../config/index.mjs\<close>, and the values of \<open>uuidv4\<close> (the \<open>n\<close>-th call
  gives \<open>uuid_values n\<close>).
\<close>

record imported =
  chatgptWebModelKeys :: "string list"
  gptApiModelKeys :: "string list"
  chatgptApiModelKeys :: "string list"
  customApiModelKeys :: "string list"
  uuid_values :: "nat \<Rightarrow> string"

text \<open>The generation capability a request ends in, with the arguments it is given.\<close>

datatype backend_call =
    ChatgptWebApi string session jsval
  | GptCompletionApi string session string string
  | ChatgptApi string session string string
  | CustomApi string session string string

datatype envelope = ErrorEnvelope string

text \<open>Every effect of the code on its surroundings, in the order it happens.\<close>

datatype event =
    EvGetUserConfig
  | EvFetchSession
  | EvCacheGet string
  | EvCacheSet string jsval
  | EvCacheDelete string
  | EvUuid string
  | EvBackend backend_call
  | EvPost envelope

text \<open>
  What the surroundings answer during one request: the clock when the cache is read, the
  time the credential source takes, the browser, the stored configuration, the session
  endpoint's answer, and the message of the error the backend call throws, if it throws.
\<close>

record env =
  now :: nat
  fetch_elapsed :: nat
  isSafari :: bool
  stored_config :: user_config
  session_fetch :: fetch_outcome
  backend_throws :: "string option"

text \<open>
  The module's state: the data of the \<open>ExpiryMap\<close> (each value with the time it expires
  at), the number of identifiers \<open>uuidv4\<close> has issued, and the effects so far.
\<close>

record world =
  cache :: "string \<rightharpoonup> (jsval \<times> nat)"
  uuid_count :: nat
  trace :: "event list"

definition emit :: "event \<Rightarrow> world \<Rightarrow> world" where
  "emit ev w = w\<lparr>trace := trace w @ [ev]\<rparr>"

section \<open>The credential cache\<close>

definition KEY_ACCESS_TOKEN :: string where
  "KEY_ACCESS_TOKEN = ''accessToken''"

text \<open>\<open>new ExpiryMap(10 * 1000)\<close>: the age limit in milliseconds.\<close>

definition cache_maxAge :: nat where
  "cache_maxAge = 10 * 1000"

text \<open>
  Modelled from the spec: the \<open>expiry-map\<close> package is not among the sources. The spec has
  a value readable for 10 seconds from when it was stored, and not from 10 s + 1 ms on;
  \<open>set\<close> stamps the value with \<open>Date.now() + maxAge\<close>, \<open>get\<close> gives \<open>undefined\<close> for a
  missing or expired key, \<open>delete\<close> evicts.
\<close>

definition em_get :: "nat \<Rightarrow> (string \<rightharpoonup> (jsval \<times> nat)) \<Rightarrow> string \<Rightarrow> jsval" where
  "em_get t m k =
     (case m k of
        None \<Rightarrow> None
      | Some (v, expires) \<Rightarrow> if t \<le> expires then v else None)"

definition em_set ::
  "nat \<Rightarrow> (string \<rightharpoonup> (jsval \<times> nat)) \<Rightarrow> string \<Rightarrow> jsval \<Rightarrow> (string \<rightharpoonup> (jsval \<times> nat))" where
  "em_set t m k v = m(k \<mapsto> (v, t + cache_maxAge))"

definition em_delete :: "(string \<rightharpoonup> (jsval \<times> nat)) \<Rightarrow> string \<Rightarrow> (string \<rightharpoonup> (jsval \<times> nat))" where
  "em_delete m k = m(k := None)"

text \<open>\<open>cache.get\<close>, \<open>cache.set\<close> and \<open>cache.delete\<close> on the module's cache at time \<open>t\<close>.\<close>

definition cache_get :: "nat \<Rightarrow> string \<Rightarrow> world \<Rightarrow> jsval \<times> world" where
  "cache_get t k w = (em_get t (cache w) k, emit (EvCacheGet k) w)"

definition cache_set :: "nat \<Rightarrow> string \<Rightarrow> jsval \<Rightarrow> world \<Rightarrow> world" where
  "cache_set t k v w = emit (EvCacheSet k v) (w\<lparr>cache := em_set t (cache w) k v\<rparr>)"

definition cache_delete :: "string \<Rightarrow> world \<Rightarrow> world" where
  "cache_delete k w = emit (EvCacheDelete k) (w\<lparr>cache := em_delete (cache w) k\<rparr>)"

text \<open>
  \<open>getAccessToken\<close> (lines 27 to 50). The cache is read at \<open>now e\<close>; a fetched value is
  stored, and read back, \<open>fetch_elapsed e\<close> later.
\<close>

definition store_and_return :: "env \<Rightarrow> jsval \<Rightarrow> world \<Rightarrow> (error + jsval) \<times> world" where
  "store_and_return e v w =
     (let t = now e + fetch_elapsed e;
          w1 = cache_set t KEY_ACCESS_TOKEN v w;
          (r, w2) = cache_get t KEY_ACCESS_TOKEN w1
      in (Inr r, w2))"

definition getAccessToken :: "env \<Rightarrow> world \<Rightarrow> (error + jsval) \<times> world" where
  "getAccessToken e w =
     (let (c, w1) = cache_get (now e) KEY_ACCESS_TOKEN w in
      if truthy c then
        (let (r, w2) = cache_get (now e) KEY_ACCESS_TOKEN w1 in (Inr r, w2))
      else if isSafari e then
        (let w2 = emit EvGetUserConfig w1;
             userConfig = stored_config e
         in if truthy (accessToken userConfig)
            then store_and_return e (accessToken userConfig) w2
            else (Inl (Error ''UNAUTHORIZED''), w2))
      else
        (let w2 = emit EvFetchSession w1 in
         case session_fetch e of
           FetchRejected m \<Rightarrow> (Inl (Error m), w2)
         | Response st bd \<Rightarrow>
             if st = 403 then (Inl (Error ''CLOUDFLARE''), w2)
             else
               (case prop_accessToken (case bd of None \<Rightarrow> JObj [] | Some d \<Rightarrow> d) of
                  Inl err \<Rightarrow> (Inl err, w2)
                | Inr tok \<Rightarrow>
                    if \<not> truthy tok then (Inl (Error ''UNAUTHORIZED''), w2)
                    else store_and_return e tok w2)))"

section \<open>The session channel handler\<close>

text \<open>\<open>uuidv4()\<close>: the next value of the generator.\<close>

definition uuidv4 :: "imported \<Rightarrow> world \<Rightarrow> string \<times> world" where
  "uuidv4 im w =
     (let u = uuid_values im (uuid_count w)
      in (u, emit (EvUuid u) (w\<lparr>uuid_count := Suc (uuid_count w)\<rparr>)))"

text \<open>
  A call of a generation capability (\<open>./apis/*\<close>, not among the sources): it returns, or
  throws the error the surroundings name. What it streams on the port is its own.
\<close>

definition call_backend :: "env \<Rightarrow> backend_call \<Rightarrow> world \<Rightarrow> (error + unit) \<times> world" where
  "call_backend e c w =
     ((case backend_throws e of None \<Rightarrow> Inr () | Some m \<Rightarrow> Inl (Error m)),
      emit (EvBackend c) w)"

text \<open>Lines 63 to 66: the identifiers of a web-session turn.\<close>

definition assign_ids :: "imported \<Rightarrow> session \<Rightarrow> world \<Rightarrow> session \<times> world" where
  "assign_ids im s w =
     (let (u, w1) = uuidv4 im w;
          s1 = s\<lparr>messageId := Some (JStr u)\<rparr>
      in if loose_null (parentMessageId s1)
         then (let (u', w2) = uuidv4 im w1 in (s1\<lparr>parentMessageId := Some (JStr u')\<rparr>, w2))
         else (s1, w1))"

text \<open>The body of the \<open>try\<close> (lines 61 to 92): the chain of membership tests.\<close>

definition dispatch ::
  "imported \<Rightarrow> env \<Rightarrow> user_config \<Rightarrow> session \<Rightarrow> world \<Rightarrow> (error + unit) \<times> world" where
  "dispatch im e config s w =
     (if modelName config \<in> set (chatgptWebModelKeys im) then
        (case getAccessToken e w of
           (Inl err, w1) \<Rightarrow> (Inl err, w1)
         | (Inr tok, w1) \<Rightarrow>
             (let (s1, w2) = assign_ids im s w1
              in call_backend e (ChatgptWebApi (question s1) s1 tok) w2))
      else if modelName config \<in> set (gptApiModelKeys im) then
        call_backend e (GptCompletionApi (question s) s (apiKey config) (modelName config)) w
      else if modelName config \<in> set (chatgptApiModelKeys im) then
        call_backend e (ChatgptApi (question s) s (apiKey config) (modelName config)) w
      else if modelName config \<in> set (customApiModelKeys im) then
        call_backend e (CustomApi (question s) s (apiKey config) (modelName config)) w
      else (Inr (), w))"

text \<open>The \<open>catch\<close> block (lines 93 to 99).\<close>

definition on_error :: "error \<Rightarrow> world \<Rightarrow> world" where
  "on_error err w =
     (if \<not> str_includes (message err) ''aborted''
      then cache_delete KEY_ACCESS_TOKEN (emit (EvPost (ErrorEnvelope (message err))) w)
      else w)"

text \<open>The listener of \<open>port.onMessage\<close> (lines 54 to 100).\<close>

definition onMessage :: "imported \<Rightarrow> env \<Rightarrow> msg \<Rightarrow> world \<Rightarrow> world" where
  "onMessage im e m w =
     (case msg_session m of
        None \<Rightarrow> w
      | Some s \<Rightarrow>
          (let w1 = emit EvGetUserConfig w;
               config = stored_config e
           in case dispatch im e config s w1 of
                (Inr u, w2) \<Rightarrow> w2
              | (Inl err, w2) \<Rightarrow> on_error err w2))"

text \<open>
  The branch of the chain a model key takes, under the spec's names for the families.
\<close>

datatype family = WebSession | Completion | ChatCompletion | Custom | Unknown

definition classify :: "imported \<Rightarrow> string \<Rightarrow> family" where
  "classify im k =
     (if k \<in> set (chatgptWebModelKeys im) then WebSession
      else if k \<in> set (gptApiModelKeys im) then Completion
      else if k \<in> set (chatgptApiModelKeys im) then ChatCompletion
      else if k \<in> set (customApiModelKeys im) then Custom
      else Unknown)"

text \<open>The events a request added to the trace.\<close>

definition added :: "world \<Rightarrow> world \<Rightarrow> event list" where
  "added w w' = drop (length (trace w)) (trace w')"

section \<open>The context menu\<close>

record menu_item =
  item_id :: string
  item_parentId :: "string option"
  item_title :: "string option"
  item_contexts :: "string list"
  item_type :: "string option"

text \<open>
  The static configuration the menu is built from: the entries of \<open>menuConfig\<close> (key and
  label, in the order of \<open>Object.entries\<close>), and the two parallel arrays of \<open>defaultConfig\<close>.
\<close>

record menu_config =
  menuConfig :: "(string \<times> string) list"
  selectionTools :: "string list"
  selectionToolsDesc :: "string list"

text \<open>
  The browser's side: the menu items it holds, and the listeners registered on
  \<open>contextMenus.onClicked\<close>, each a closure of line 144 with the \<open>menuId\<close> it captured.
\<close>

record browser =
  menus :: "menu_item list"
  click_listeners :: "string list"

record click_info =
  menuItemId :: string
  selectionText :: jsval

text \<open>The message \<open>{type: 'CREATE_MENU', data: {itemId, selectionText}}\<close>.\<close>

datatype tab_message = CREATE_MENU string jsval

text \<open>
  The browser's menu interface: \<open>removeAll\<close> empties the tree, \<open>create\<close> adds an item
  unless its id is taken (the browser refuses a duplicate id), \<open>addListener\<close> registers
  one more function (every evaluation of the arrow function of line 144 is a new function
  object, so none is ever found registered already).
\<close>

definition removeAll_menus :: "browser \<Rightarrow> browser" where
  "removeAll_menus b = b\<lparr>menus := []\<rparr>"

definition create :: "menu_item \<Rightarrow> browser \<Rightarrow> browser" where
  "create it b =
     (if item_id it \<in> set (map item_id (menus b)) then b
      else b\<lparr>menus := menus b @ [it]\<rparr>)"

definition addListener :: "string \<Rightarrow> browser \<Rightarrow> browser" where
  "addListener menuId b = b\<lparr>click_listeners := click_listeners b @ [menuId]\<rparr>"

text \<open>\<open>arr[index]\<close>: \<open>undefined\<close> out of range.\<close>

definition at_index :: "'a list \<Rightarrow> nat \<Rightarrow> 'a option" where
  "at_index xs i = (if i < length xs then Some (xs ! i) else None)"

text \<open>\<open>refreshMenu\<close> (lines 110 to 156), the callback run once \<open>removeAll\<close> has resolved.\<close>

definition menu_root :: string where
  "menu_root = ''ChatGPTBox-Menu''"

definition tool_item :: "string \<times> string \<Rightarrow> menu_item" where
  "tool_item kv =
     \<lparr>item_id = menu_root @ fst kv, item_parentId = Some menu_root,
      item_title = Some (snd kv), item_contexts = [''all''], item_type = None\<rparr>"

definition separator_item :: menu_item where
  "separator_item =
     \<lparr>item_id = menu_root @ ''separator1'', item_parentId = Some menu_root,
      item_title = None, item_contexts = [''selection''], item_type = Some ''separator''\<rparr>"

definition selection_item :: "menu_config \<Rightarrow> nat \<Rightarrow> menu_item" where
  "selection_item cfg i =
     \<lparr>item_id = menu_root @ (selectionTools cfg ! i), item_parentId = Some menu_root,
      item_title = at_index (selectionToolsDesc cfg) i, item_contexts = [''selection''],
      item_type = None\<rparr>"

definition refreshMenu :: "menu_config \<Rightarrow> browser \<Rightarrow> browser" where
  "refreshMenu cfg b =
     (let b0 = removeAll_menus b;
          b1 = create \<lparr>item_id = menu_root, item_parentId = None,
                 item_title = Some ''ChatGPTBox'', item_contexts = [''all''],
                 item_type = None\<rparr> b0;
          b2 = fold (\<lambda>kv. create (tool_item kv)) (menuConfig cfg) b1;
          b3 = create separator_item b2;
          b4 = fold (\<lambda>i. create (selection_item cfg i)) [0..<length (selectionTools cfg)] b3
      in addListener menu_root b4)"

text \<open>A click: every registered listener runs and sends its message to the tab.\<close>

definition on_click :: "string \<Rightarrow> click_info \<Rightarrow> nat \<Rightarrow> nat \<times> tab_message" where
  "on_click menuId info tab_id =
     (tab_id, CREATE_MENU (str_replace (menuItemId info) menuId []) (selectionText info))"

definition click :: "browser \<Rightarrow> click_info \<Rightarrow> nat \<Rightarrow> (nat \<times> tab_message) list" where
  "click b info tab_id = map (\<lambda>menuId. on_click menuId info tab_id) (click_listeners b)"

text \<open>The browser when the module is loaded: no menu item, no listener.\<close>

definition browser_start :: browser where
  "browser_start = \<lparr>menus = [], click_listeners = []\<rparr>"

section \<open>Observations and sample inputs\<close>

text \<open>The envelopes posted on the port, and the session a backend call is given.\<close>

definition posts :: "event list \<Rightarrow> envelope list" where
  "posts evs = concat (map (\<lambda>ev. case ev of EvPost p \<Rightarrow> [p] | _ \<Rightarrow> []) evs)"

fun call_session :: "backend_call \<Rightarrow> session" where
  "call_session (ChatgptWebApi q s tok) = s"
| "call_session (GptCompletionApi q s k m) = s"
| "call_session (ChatgptApi q s k m) = s"
| "call_session (CustomApi q s k m) = s"

text \<open>The membership list of a family, and the keys that belong to some list.\<close>

fun family_keys :: "imported \<Rightarrow> family \<Rightarrow> string list" where
  "family_keys im WebSession = chatgptWebModelKeys im"
| "family_keys im Completion = gptApiModelKeys im"
| "family_keys im ChatCompletion = chatgptApiModelKeys im"
| "family_keys im Custom = customApiModelKeys im"
| "family_keys im Unknown = []"

definition valid_keys :: "imported \<Rightarrow> string set" where
  "valid_keys im =
     set (chatgptWebModelKeys im) \<union> set (gptApiModelKeys im)
     \<union> set (chatgptApiModelKeys im) \<union> set (customApiModelKeys im)"

text \<open>
  Modelled from the spec: the contents of the four lists are in \<open>../config/index.mjs\<close>,
  which is not among the sources. The spec has the families disjoint: a key belongs to
  exactly one of them.
\<close>

definition families_disjoint :: "imported \<Rightarrow> bool" where
  "families_disjoint im =
     (set (chatgptWebModelKeys im) \<inter> set (gptApiModelKeys im) = {}
      \<and> set (chatgptWebModelKeys im) \<inter> set (chatgptApiModelKeys im) = {}
      \<and> set (chatgptWebModelKeys im) \<inter> set (customApiModelKeys im) = {}
      \<and> set (gptApiModelKeys im) \<inter> set (chatgptApiModelKeys im) = {}
      \<and> set (gptApiModelKeys im) \<inter> set (customApiModelKeys im) = {}
      \<and> set (chatgptApiModelKeys im) \<inter> set (customApiModelKeys im) = {})"

text \<open>The capability the chain calls for a token-based family.\<close>

definition token_call :: "family \<Rightarrow> string \<Rightarrow> session \<Rightarrow> string \<Rightarrow> string \<Rightarrow> backend_call" where
  "token_call f =
     (case f of Completion \<Rightarrow> GptCompletionApi | ChatCompletion \<Rightarrow> ChatgptApi | _ \<Rightarrow> CustomApi)"

text \<open>What the \<open>catch\<close> block adds when the backend call throws \<open>thrown\<close>.\<close>

definition failure_events :: "string option \<Rightarrow> event list" where
  "failure_events thrown =
     (case thrown of
        None \<Rightarrow> []
      | Some m \<Rightarrow>
          if str_includes m ''aborted'' then []
          else [EvPost (ErrorEnvelope m), EvCacheDelete KEY_ACCESS_TOKEN])"

text \<open>Concrete inputs on which the properties below are run.\<close>

definition sample_imported :: imported where
  "sample_imported =
     \<lparr>chatgptWebModelKeys = [''chatgptFree35'', ''chatgptPlus4''],
      gptApiModelKeys = [''gptApiDavinci''],
      chatgptApiModelKeys = [''chatgptApi35'', ''chatgptApi4_8k''],
      customApiModelKeys = [''customModel''],
      uuid_values = (\<lambda>n. ''id-'' @ replicate n (CHR ''x''))\<rparr>"

definition world_start :: world where
  "world_start = \<lparr>cache = Map.empty, uuid_count = 0, trace = []\<rparr>"

definition world_cached :: world where
  "world_cached =
     \<lparr>cache = [''accessToken'' \<mapsto> (Some (JStr ''tok-1''), 11000)], uuid_count = 2, trace = []\<rparr>"

definition sample_env :: env where
  "sample_env =
     \<lparr>now = 5000, fetch_elapsed = 120, isSafari = False,
      stored_config = \<lparr>modelName = ''chatgptFree35'', apiKey = ''sk-1'', accessToken = None\<rparr>,
      session_fetch = Response 200 (Some (JObj [(''accessToken'', JStr ''tok-2'')])),
      backend_throws = None\<rparr>"

definition sample_session :: session where
  "sample_session =
     \<lparr>messageId = Some (JStr ''caller-turn''), parentMessageId = Some (JStr ''caller-parent''),
      question = ''why?'', extra = [(''conversationId'', JStr ''c-9'')]\<rparr>"

text \<open>
  Every value in the cache is truthy: the invariant of the cache, which holds at the start
  and which \<open>getAccessToken\<close> and \<open>onMessage\<close> keep.
\<close>

definition cache_truthy :: "world \<Rightarrow> bool" where
  "cache_truthy w = (\<forall>k v t. cache w k = Some (v, t) \<longrightarrow> truthy v)"

text \<open>The session a web-session turn hands to the backend when \<open>n\<close> identifiers were issued before.\<close>

definition web_session :: "imported \<Rightarrow> nat \<Rightarrow> session \<Rightarrow> session" where
  "web_session im n s =
     s\<lparr>messageId := Some (JStr (uuid_values im n)),
       parentMessageId :=
         (if loose_null (parentMessageId s) then Some (JStr (uuid_values im (Suc n)))
          else parentMessageId s)\<rparr>"

definition sample_menu :: menu_config where
  "sample_menu =
     \<lparr>menuConfig = [(''newChat'', ''New Chat'')],
      selectionTools = [''translate'', ''summary''],
      selectionToolsDesc = [''Translate'', ''Summary'']\<rparr>"

definition sample_click :: click_info where
  "sample_click = \<lparr>menuItemId = ''ChatGPTBox-Menutranslate'', selectionText = Some (JStr ''hello'')\<rparr>"

section \<open>The credential cache: properties\<close>

lemmas world_defs = emit_def cache_get_def cache_set_def cache_delete_def store_and_return_def


lemma getAccessToken_uuid_count:
  "uuid_count (snd (getAccessToken e w)) = uuid_count w"
  by (auto simp: getAccessToken_def world_defs Let_def
      split: fetch_outcome.splits sum.splits option.splits prod.splits)

lemma getAccessToken_grows:
  "\<exists>evs. trace (snd (getAccessToken e w)) = trace w @ evs \<and> posts evs = []
      \<and> (\<forall>k. EvCacheDelete k \<notin> set evs) \<and> (\<forall>c. EvBackend c \<notin> set evs)
      \<and> (\<forall>u. EvUuid u \<notin> set evs)"
  by (auto simp: getAccessToken_def world_defs Let_def posts_def
      split: fetch_outcome.splits sum.splits option.splits prod.splits)

lemma getAccessToken_error_cache:
  "getAccessToken e w = (Inl err, w') \<Longrightarrow> cache w' = cache w"
  by (auto simp: getAccessToken_def world_defs Let_def
      split: fetch_outcome.splits sum.splits option.splits prod.splits if_splits)

lemma getAccessToken_error_no_set:
  "getAccessToken e w = (Inl err, w') \<Longrightarrow> EvCacheSet k v \<notin> set (added w w')"
  by (auto simp: getAccessToken_def world_defs Let_def added_def
      split: fetch_outcome.splits sum.splits option.splits prod.splits if_splits)

lemma cache_truthy_start: "cache_truthy world_start"
  by (simp add: cache_truthy_def world_start_def)

lemma cache_truthy_getAccessToken:
  "cache_truthy w \<Longrightarrow> cache_truthy (snd (getAccessToken e w))"
  by (auto simp: cache_truthy_def getAccessToken_def world_defs em_set_def Let_def
      split: fetch_outcome.splits sum.splits option.splits prod.splits if_splits)

text \<open>
  C2. On a cache miss where the ambient cookie session is used (not Safari), a response
  with status 403 makes \<open>getAccessToken\<close> fail with \<open>CLOUDFLARE\<close>, not with
  \<open>UNAUTHORIZED\<close>; and whenever the call fails, the cache is as it was and no
  \<open>cache.set\<close> has happened.
\<close>

theorem getAccessToken_403_blocked:
  assumes "\<not> truthy (em_get (now e) (cache w) KEY_ACCESS_TOKEN)"
    and "\<not> isSafari e"
  shows "(\<forall>bd. session_fetch e = Response 403 bd \<longrightarrow>
            fst (getAccessToken e w) = Inl (Error ''CLOUDFLARE'')
            \<and> fst (getAccessToken e w) \<noteq> Inl (Error ''UNAUTHORIZED''))
       \<and> (\<forall>err k v. fst (getAccessToken e w) = Inl err \<longrightarrow>
            cache (snd (getAccessToken e w)) = cache w
            \<and> EvCacheSet k v \<notin> set (added w (snd (getAccessToken e w))))"
proof (intro conjI allI impI)
  fix bd assume "session_fetch e = Response 403 bd"
  with assms show "fst (getAccessToken e w) = Inl (Error ''CLOUDFLARE'')"
    by (simp add: getAccessToken_def world_defs Let_def)
  then show "fst (getAccessToken e w) \<noteq> Inl (Error ''UNAUTHORIZED'')" by simp
next
  fix err k v assume "fst (getAccessToken e w) = Inl err"
  then have *: "getAccessToken e w = (Inl err, snd (getAccessToken e w))"
    by (metis prod.collapse)
  show "cache (snd (getAccessToken e w)) = cache w"
    using getAccessToken_error_cache [OF *] .
  show "EvCacheSet k v \<notin> set (added w (snd (getAccessToken e w)))"
    using getAccessToken_error_no_set [OF *] .
qed

theorem getAccessToken_403_blocked_witness:
  "fst (getAccessToken (sample_env\<lparr>session_fetch := Response 403 None\<rparr>) world_start)
     = Inl (Error ''CLOUDFLARE'')
   \<and> cache (snd (getAccessToken (sample_env\<lparr>session_fetch := Response 403 None\<rparr>) world_start))
     = cache world_start"
  using getAccessToken_403_blocked [of "sample_env\<lparr>session_fetch := Response 403 None\<rparr>" world_start]
  by (simp add: sample_env_def world_start_def em_get_def)

text \<open>
  C3. With a credential in the cache (a truthy value, as every cached value is) that
  \<open>cache.set\<close> stored at time \<open>stored\<close>: a call no later than 10 seconds after that
  returns the cached value after two cache reads and nothing else (no network request, no
  configuration read); a call later than that goes to the credential source (the
  configuration in Safari, the network otherwise) right after the cache read, and a value
  it returns is the one it has just stored, with a new expiry.
\<close>

theorem cached_credential_window:
  assumes "cache w KEY_ACCESS_TOKEN = Some (v, stored + cache_maxAge)"
    and "truthy v"
  shows "(now e \<le> stored + 10 * 1000 \<longrightarrow>
            getAccessToken e w =
              (Inr v, emit (EvCacheGet KEY_ACCESS_TOKEN) (emit (EvCacheGet KEY_ACCESS_TOKEN) w)))
       \<and> (stored + 10 * 1000 < now e \<longrightarrow>
            (\<exists>evs. added w (snd (getAccessToken e w)) =
                EvCacheGet KEY_ACCESS_TOKEN
                # (if isSafari e then EvGetUserConfig else EvFetchSession) # evs)
            \<and> (\<forall>r. fst (getAccessToken e w) = Inr r \<longrightarrow>
                  EvCacheSet KEY_ACCESS_TOKEN r \<in> set (added w (snd (getAccessToken e w)))
                  \<and> cache (snd (getAccessToken e w)) KEY_ACCESS_TOKEN =
                      Some (r, now e + fetch_elapsed e + cache_maxAge)))"
proof (intro conjI impI)
  assume "now e \<le> stored + 10 * 1000"
  with assms show "getAccessToken e w =
      (Inr v, emit (EvCacheGet KEY_ACCESS_TOKEN) (emit (EvCacheGet KEY_ACCESS_TOKEN) w))"
    by (simp add: getAccessToken_def cache_get_def em_get_def cache_maxAge_def emit_def)
next
  assume late: "stored + 10 * 1000 < now e"
  with assms have miss: "em_get (now e) (cache w) KEY_ACCESS_TOKEN = None"
    by (simp add: em_get_def cache_maxAge_def)
  show "\<exists>evs. added w (snd (getAccessToken e w)) =
      EvCacheGet KEY_ACCESS_TOKEN # (if isSafari e then EvGetUserConfig else EvFetchSession) # evs"
    using miss
    by (auto simp: getAccessToken_def world_defs Let_def added_def
        split: fetch_outcome.splits sum.splits option.splits prod.splits)
  show "\<forall>r. fst (getAccessToken e w) = Inr r \<longrightarrow>
      EvCacheSet KEY_ACCESS_TOKEN r \<in> set (added w (snd (getAccessToken e w)))
      \<and> cache (snd (getAccessToken e w)) KEY_ACCESS_TOKEN =
          Some (r, now e + fetch_elapsed e + cache_maxAge)"
    using miss
    by (auto simp: getAccessToken_def world_defs Let_def added_def em_get_def em_set_def
        split: fetch_outcome.splits sum.splits option.splits prod.splits)
qed

theorem cached_credential_window_witness:
  "getAccessToken (sample_env\<lparr>now := 11000\<rparr>) world_cached =
     (Inr (Some (JStr ''tok-1'')),
      world_cached\<lparr>trace := [EvCacheGet ''accessToken'', EvCacheGet ''accessToken'']\<rparr>)
   \<and> fst (getAccessToken (sample_env\<lparr>now := 11001\<rparr>) world_cached) = Inr (Some (JStr ''tok-2''))
   \<and> cache (snd (getAccessToken (sample_env\<lparr>now := 11001\<rparr>) world_cached)) ''accessToken''
       = Some (Some (JStr ''tok-2''), 21121)"
proof -
  have c: "cache world_cached KEY_ACCESS_TOKEN = Some (Some (JStr ''tok-1''), 1000 + cache_maxAge)"
    by (simp add: world_cached_def KEY_ACCESS_TOKEN_def cache_maxAge_def)
  have t: "truthy (Some (JStr ''tok-1''))" by simp
  have r: "fst (getAccessToken (sample_env\<lparr>now := 11001\<rparr>) world_cached) = Inr (Some (JStr ''tok-2''))"
    by (simp add: getAccessToken_def world_defs Let_def em_get_def em_set_def sample_env_def
        world_cached_def KEY_ACCESS_TOKEN_def cache_maxAge_def)
  show ?thesis
    using cached_credential_window [OF c t, of "sample_env\<lparr>now := 11000\<rparr>"]
      cached_credential_window [OF c t, of "sample_env\<lparr>now := 11001\<rparr>"] r
    by (simp add: sample_env_def world_cached_def emit_def KEY_ACCESS_TOKEN_def cache_maxAge_def)
qed

text \<open>
  C10, as stated, fails: a response with status 403 whose body is not JSON (the challenge
  page of the edge) is a fetch with an unparseable body, and there \<open>getAccessToken\<close>
  fails with \<open>CLOUDFLARE\<close>, not with \<open>UNAUTHORIZED\<close>: line 40 tests the status before
  line 43 reads the body.
\<close>

theorem unparseable_body_403_blocked:
  "getAccessToken (sample_env\<lparr>session_fetch := Response 403 None\<rparr>) world_start =
     (Inl (Error ''CLOUDFLARE''),
      world_start\<lparr>trace := [EvCacheGet ''accessToken'', EvFetchSession]\<rparr>)
   \<and> fst (getAccessToken (sample_env\<lparr>session_fetch := Response 403 None\<rparr>) world_start)
     \<noteq> Inl (Error ''UNAUTHORIZED'')"
  by (simp add: getAccessToken_def world_defs Let_def em_get_def sample_env_def world_start_def
      KEY_ACCESS_TOKEN_def)

text \<open>
  C10, amended. On a cache miss outside Safari, a response whose body is not JSON and
  whose status is not 403 makes \<open>getAccessToken\<close> fail with \<open>UNAUTHORIZED\<close>, after the
  cache read and the network request and nothing else, and no parse exception reaches the
  caller; with status 403 it fails with \<open>CLOUDFLARE\<close> instead. At every status the cache
  is unchanged, and the outcome is the one of every well-formed object body that has no
  \<open>accessToken\<close> property.
\<close>

theorem unparseable_body_unauthorized:
  assumes "\<not> truthy (em_get (now e) (cache w) KEY_ACCESS_TOKEN)"
    and "\<not> isSafari e"
    and "session_fetch e = Response st None"
  shows "(st \<noteq> 403 \<longrightarrow>
            getAccessToken e w =
              (Inl (Error ''UNAUTHORIZED''),
               emit EvFetchSession (emit (EvCacheGet KEY_ACCESS_TOKEN) w)))
       \<and> (st = 403 \<longrightarrow>
            getAccessToken e w =
              (Inl (Error ''CLOUDFLARE''),
               emit EvFetchSession (emit (EvCacheGet KEY_ACCESS_TOKEN) w)))
       \<and> cache (snd (getAccessToken e w)) = cache w
       \<and> (\<forall>kvs. map_of kvs ''accessToken'' = None \<longrightarrow>
            getAccessToken (e\<lparr>session_fetch := Response st (Some (JObj kvs))\<rparr>) w
              = getAccessToken e w)"
  using assms by (simp add: getAccessToken_def world_defs Let_def)

theorem unparseable_body_unauthorized_witness:
  "getAccessToken (sample_env\<lparr>session_fetch := Response 200 None\<rparr>) world_start =
     (Inl (Error ''UNAUTHORIZED''),
      world_start\<lparr>trace := [EvCacheGet ''accessToken'', EvFetchSession]\<rparr>)
   \<and> cache (snd (getAccessToken (sample_env\<lparr>session_fetch := Response 200 None\<rparr>) world_start))
     = cache world_start
   \<and> getAccessToken (sample_env\<lparr>session_fetch := Response 200 (Some (JObj []))\<rparr>) world_start
     = getAccessToken (sample_env\<lparr>session_fetch := Response 200 None\<rparr>) world_start"
  using unparseable_body_unauthorized
    [of "sample_env\<lparr>session_fetch := Response 200 None\<rparr>" world_start 200]
  by (simp add: sample_env_def world_start_def em_get_def emit_def KEY_ACCESS_TOKEN_def)

section \<open>The session channel handler: properties\<close>

lemma added_append [simp]: "trace w' = trace w @ evs \<Longrightarrow> added w w' = evs"
  by (simp add: added_def)

lemma posts_append [simp]: "posts (xs @ ys) = posts xs @ posts ys"
  by (simp add: posts_def)

lemma dispatch_grows:
  "\<exists>evs. trace (snd (dispatch im e cfg s w)) = trace w @ evs \<and> posts evs = []
      \<and> (\<forall>k. EvCacheDelete k \<notin> set evs)"
proof (cases "modelName cfg \<in> set (chatgptWebModelKeys im)")
  case True
  obtain r w1 where g: "getAccessToken e w = (r, w1)" by (cases "getAccessToken e w")
  from getAccessToken_grows [of e w] g obtain evs where
    evs: "trace w1 = trace w @ evs" "posts evs = []" "\<forall>k. EvCacheDelete k \<notin> set evs"
    by auto
  show ?thesis
  proof (cases r)
    case (Inl err)
    with True g evs show ?thesis by (simp add: dispatch_def)
  next
    case (Inr tok)
    with True g evs show ?thesis
      by (auto simp: dispatch_def assign_ids_def uuidv4_def call_backend_def emit_def Let_def posts_def)
  qed
next
  case False
  then show ?thesis
    by (auto simp: dispatch_def call_backend_def emit_def posts_def)
qed

lemma cache_truthy_on_error: "cache_truthy w \<Longrightarrow> cache_truthy (on_error err w)"
  by (auto simp: cache_truthy_def on_error_def cache_delete_def em_delete_def emit_def
      split: if_splits)

lemma cache_truthy_dispatch:
  assumes "cache_truthy w"
  shows "cache_truthy (snd (dispatch im e cfg s w))"
proof -
  have c: "cache (snd (assign_ids im s w')) = cache w'" for w'
    by (simp add: assign_ids_def uuidv4_def emit_def Let_def)
  have b: "cache (snd (call_backend e c w')) = cache w'" for c w'
    by (simp add: call_backend_def emit_def)
  have t: "cache_truthy w'" if "cache w' = cache w''" "cache_truthy w''" for w' w''
    using that by (simp add: cache_truthy_def)
  show ?thesis
  proof (cases "modelName cfg \<in> set (chatgptWebModelKeys im)")
    case True
    obtain r w1 where g: "getAccessToken e w = (r, w1)" by (cases "getAccessToken e w")
    with cache_truthy_getAccessToken [OF assms, of e] have w1: "cache_truthy w1" by simp
    show ?thesis
    proof (cases r)
      case (Inl err)
      with True g w1 show ?thesis by (simp add: dispatch_def)
    next
      case (Inr tok)
      obtain s1 w2 where a: "assign_ids im s w1 = (s1, w2)" by (cases "assign_ids im s w1")
      with c [of w1] have "cache w2 = cache w1" by simp
      with w1 have "cache_truthy (snd (call_backend e (ChatgptWebApi (question s1) s1 tok) w2))"
        by (intro t [OF _ w1]) (simp add: b)
      with True g Inr a show ?thesis by (simp add: dispatch_def)
    qed
  next
    case False
    with assms show ?thesis
      by (auto simp: dispatch_def intro: t [OF b])
  qed
qed

lemma cache_truthy_onMessage:
  assumes "cache_truthy w"
  shows "cache_truthy (onMessage im e m w)"
proof (cases "msg_session m")
  case None
  with assms show ?thesis by (simp add: onMessage_def)
next
  case (Some s)
  from assms have "cache_truthy (emit EvGetUserConfig w)"
    by (simp add: cache_truthy_def emit_def)
  from cache_truthy_dispatch [OF this, of im e "stored_config e" s]
  show ?thesis
    using Some
    by (auto simp: onMessage_def Let_def cache_truthy_on_error split: prod.splits sum.splits)
qed

text \<open>
  C1. A request whose \<open>try\<close> body ends in an exception: when the message contains
  \<open>aborted\<close>, the handler adds nothing (no envelope is posted, no \<open>cache.delete\<close>
  happens, during the whole request); otherwise the handler posts the one envelope
  \<open>{error: message}\<close> with the message as thrown, the only envelope of the request, and
  deletes the cache entry.
\<close>

theorem failed_request_reporting:
  assumes "dispatch im e (stored_config e) s (emit EvGetUserConfig w) = (Inl err, w1)"
  shows "if str_includes (message err) ''aborted''
         then onMessage im e \<lparr>msg_session = Some s\<rparr> w = w1
              \<and> posts (added w w1) = []
              \<and> EvCacheDelete KEY_ACCESS_TOKEN \<notin> set (added w w1)
         else onMessage im e \<lparr>msg_session = Some s\<rparr> w =
                cache_delete KEY_ACCESS_TOKEN (emit (EvPost (ErrorEnvelope (message err))) w1)
              \<and> posts (added w (onMessage im e \<lparr>msg_session = Some s\<rparr> w)) =
                  [ErrorEnvelope (message err)]
              \<and> cache (onMessage im e \<lparr>msg_session = Some s\<rparr> w) KEY_ACCESS_TOKEN = None"
proof -
  from dispatch_grows [of im e "stored_config e" s "emit EvGetUserConfig w"] assms
  obtain evs where evs: "trace w1 = trace w @ EvGetUserConfig # evs" "posts evs = []"
      "\<forall>k. EvCacheDelete k \<notin> set evs"
    by (auto simp: emit_def)
  have a: "added w w1 = EvGetUserConfig # evs"
    using evs(1) by (simp add: added_def)
  have p: "posts (EvGetUserConfig # evs) = []"
    using evs(2) by (simp add: posts_def)
  show ?thesis
    using assms a p evs
    by (simp add: onMessage_def on_error_def cache_delete_def emit_def added_def em_delete_def posts_def)
qed

theorem failed_request_reporting_witness:
  "onMessage sample_imported
     (sample_env\<lparr>stored_config := \<lparr>modelName = ''gptApiDavinci'', apiKey = ''sk-1'', accessToken = None\<rparr>,
        backend_throws := Some ''The user aborted a request.''\<rparr>)
     \<lparr>msg_session = Some sample_session\<rparr> world_cached
   = world_cached\<lparr>trace :=
       [EvGetUserConfig, EvBackend (GptCompletionApi ''why?'' sample_session ''sk-1'' ''gptApiDavinci'')]\<rparr>
   \<and> posts (added world_cached
       (onMessage sample_imported
         (sample_env\<lparr>stored_config := \<lparr>modelName = ''gptApiDavinci'', apiKey = ''sk-1'', accessToken = None\<rparr>,
            backend_throws := Some ''rate limited''\<rparr>)
         \<lparr>msg_session = Some sample_session\<rparr> world_cached))
     = [ErrorEnvelope ''rate limited'']
   \<and> cache (onMessage sample_imported
         (sample_env\<lparr>stored_config := \<lparr>modelName = ''gptApiDavinci'', apiKey = ''sk-1'', accessToken = None\<rparr>,
            backend_throws := Some ''rate limited''\<rparr>)
         \<lparr>msg_session = Some sample_session\<rparr> world_cached) ''accessToken'' = None"
proof -
  let ?cfg = "\<lparr>modelName = ''gptApiDavinci'', apiKey = ''sk-1'', accessToken = None\<rparr>"
  let ?ea = "sample_env\<lparr>stored_config := ?cfg, backend_throws := Some ''The user aborted a request.''\<rparr>"
  let ?er = "sample_env\<lparr>stored_config := ?cfg, backend_throws := Some ''rate limited''\<rparr>"
  let ?w1 = "emit (EvBackend (GptCompletionApi ''why?'' sample_session ''sk-1'' ''gptApiDavinci''))
               (emit EvGetUserConfig world_cached)"
  have da: "dispatch sample_imported ?ea (stored_config ?ea) sample_session (emit EvGetUserConfig world_cached)
      = (Inl (Error ''The user aborted a request.''), ?w1)"
    by (simp add: dispatch_def call_backend_def sample_imported_def sample_env_def sample_session_def)
  have dr: "dispatch sample_imported ?er (stored_config ?er) sample_session (emit EvGetUserConfig world_cached)
      = (Inl (Error ''rate limited''), ?w1)"
    by (simp add: dispatch_def call_backend_def sample_imported_def sample_env_def sample_session_def)
  show ?thesis
    using failed_request_reporting [OF da] failed_request_reporting [OF dr]
    by (simp add: emit_def world_cached_def KEY_ACCESS_TOKEN_def cache_delete_def em_delete_def
        posts_def)
qed

lemma onMessage_unknown:
  "classify im (modelName (stored_config e)) = Unknown \<Longrightarrow>
     onMessage im e \<lparr>msg_session = Some s\<rparr> w = emit EvGetUserConfig w"
  by (simp add: onMessage_def dispatch_def classify_def split: if_splits)

lemma classify_token_families:
  "classify im (modelName cfg) \<in> {Completion, ChatCompletion, Custom} \<Longrightarrow>
     dispatch im e cfg s w =
       call_backend e
         (token_call (classify im (modelName cfg)) (question s) s (apiKey cfg) (modelName cfg)) w"
  by (auto simp: classify_def dispatch_def token_call_def split: if_splits)

lemma token_request_added:
  assumes "classify im (modelName (stored_config e)) \<in> {Completion, ChatCompletion, Custom}"
  shows "added w (onMessage im e \<lparr>msg_session = Some s\<rparr> w) =
           [EvGetUserConfig,
            EvBackend (token_call (classify im (modelName (stored_config e)))
              (question s) s (apiKey (stored_config e)) (modelName (stored_config e)))]
           @ failure_events (backend_throws e)"
proof -
  let ?c = "token_call (classify im (modelName (stored_config e)))
        (question s) s (apiKey (stored_config e)) (modelName (stored_config e))"
  have d: "dispatch im e (stored_config e) s (emit EvGetUserConfig w) =
      call_backend e ?c (emit EvGetUserConfig w)"
    using assms by (rule classify_token_families)
  have "onMessage im e \<lparr>msg_session = Some s\<rparr> w =
      (case backend_throws e of
         None \<Rightarrow> emit (EvBackend ?c) (emit EvGetUserConfig w)
       | Some m \<Rightarrow> on_error (Error m) (emit (EvBackend ?c) (emit EvGetUserConfig w)))"
    by (simp add: onMessage_def d call_backend_def split: option.splits)
  then show ?thesis
    by (simp add: on_error_def failure_events_def cache_delete_def emit_def added_def
        split: option.splits)
qed

lemma call_session_token_call [simp]:
  "call_session (token_call f q s k m) = s"
  by (cases f) (simp_all add: token_call_def)

lemma failure_events_no_call: "EvBackend c \<notin> set (failure_events t)"
  by (simp add: failure_events_def split: option.splits)

lemma classify_not_web:
  "modelName cfg \<notin> set (chatgptWebModelKeys im) \<Longrightarrow>
     classify im (modelName cfg) = Unknown
     \<or> classify im (modelName cfg) \<in> {Completion, ChatCompletion, Custom}"
  by (simp add: classify_def)

text \<open>
  C7. When the model key takes the Completion, ChatCompletion or Custom branch, the request
  consists of the configuration read, the backend call with \<open>config.apiKey\<close> and
  \<open>config.modelName\<close> of that configuration, and the \<open>catch\<close> block's events if the call
  throws: the cache is not read and no network request for a credential is made.
\<close>

theorem token_families_skip_cache:
  assumes "classify im (modelName (stored_config e)) \<in> {Completion, ChatCompletion, Custom}"
  shows "added w (onMessage im e \<lparr>msg_session = Some s\<rparr> w) =
           [EvGetUserConfig,
            EvBackend (token_call (classify im (modelName (stored_config e)))
              (question s) s (apiKey (stored_config e)) (modelName (stored_config e)))]
           @ failure_events (backend_throws e)
       \<and> (\<forall>k. EvCacheGet k \<notin> set (added w (onMessage im e \<lparr>msg_session = Some s\<rparr> w)))
       \<and> EvFetchSession \<notin> set (added w (onMessage im e \<lparr>msg_session = Some s\<rparr> w))"
  unfolding token_request_added [OF assms]
  by (simp add: failure_events_def split: option.splits)

theorem token_families_skip_cache_witness:
  "added world_cached
     (onMessage sample_imported
        (sample_env\<lparr>stored_config := \<lparr>modelName = ''chatgptApi35'', apiKey = ''sk-1'', accessToken = None\<rparr>\<rparr>)
        \<lparr>msg_session = Some sample_session\<rparr> world_cached)
   = [EvGetUserConfig, EvBackend (ChatgptApi ''why?'' sample_session ''sk-1'' ''chatgptApi35'')]"
  using token_families_skip_cache [of sample_imported
    "sample_env\<lparr>stored_config := \<lparr>modelName = ''chatgptApi35'', apiKey = ''sk-1'', accessToken = None\<rparr>\<rparr>"
    world_cached sample_session]
  by (simp add: classify_def sample_imported_def sample_env_def sample_session_def
      token_call_def failure_events_def)

lemma web_request_failed:
  assumes "modelName (stored_config e) \<in> set (chatgptWebModelKeys im)"
    and "getAccessToken e (emit EvGetUserConfig w) = (Inl err, w1)"
  shows "onMessage im e \<lparr>msg_session = Some s\<rparr> w = on_error err w1"
  using assms by (simp add: onMessage_def dispatch_def)

lemma on_error_added:
  "trace w1 = trace w @ evs \<Longrightarrow>
     \<exists>tl. added w (on_error err w1) = evs @ tl \<and> (\<forall>c. EvBackend c \<notin> set tl) \<and> (\<forall>u. EvUuid u \<notin> set tl)"
  by (simp add: on_error_def cache_delete_def emit_def added_def)

lemma credential_step:
  assumes "getAccessToken e (emit EvGetUserConfig w) = (r, w1)"
  shows "\<exists>evs. trace w1 = trace w @ EvGetUserConfig # evs
      \<and> (\<forall>c. EvBackend c \<notin> set evs) \<and> (\<forall>u. EvUuid u \<notin> set evs)"
    and "uuid_count w1 = uuid_count w"
proof -
  from getAccessToken_grows [of e "emit EvGetUserConfig w"] assms
  show "\<exists>evs. trace w1 = trace w @ EvGetUserConfig # evs
      \<and> (\<forall>c. EvBackend c \<notin> set evs) \<and> (\<forall>u. EvUuid u \<notin> set evs)"
    by (auto simp: emit_def)
  from getAccessToken_uuid_count [of e "emit EvGetUserConfig w"] assms
  show "uuid_count w1 = uuid_count w"
    by (simp add: emit_def)
qed

lemma assign_ids_session:
  "fst (assign_ids im s w) = web_session im (uuid_count w) s"
  by (simp add: assign_ids_def uuidv4_def web_session_def emit_def Let_def)

lemma assign_ids_trace:
  "\<exists>us. trace (snd (assign_ids im s w)) = trace w @ us \<and> (\<forall>c. EvBackend c \<notin> set us)"
  by (simp add: assign_ids_def uuidv4_def emit_def Let_def)

lemma web_request_calls:
  assumes web: "modelName (stored_config e) \<in> set (chatgptWebModelKeys im)"
    and g: "getAccessToken e (emit EvGetUserConfig w) = (Inr tok, w1)"
  shows "EvBackend c \<in> set (added w (onMessage im e \<lparr>msg_session = Some s\<rparr> w)) \<longleftrightarrow>
         c = ChatgptWebApi (question s) (web_session im (uuid_count w) s) tok"
proof -
  from credential_step [OF g] obtain evs where
    evs: "trace w1 = trace w @ EvGetUserConfig # evs" "\<forall>c. EvBackend c \<notin> set evs"
    and n: "uuid_count w1 = uuid_count w"
    by blast
  obtain s1 w2 where a: "assign_ids im s w1 = (s1, w2)" by (cases "assign_ids im s w1")
  from assign_ids_session [of im s w1] a n have s1: "s1 = web_session im (uuid_count w) s"
    by simp
  from assign_ids_trace [of im s w1] a obtain us where
    us: "trace w2 = trace w1 @ us" "\<forall>c. EvBackend c \<notin> set us"
    by auto
  have q: "question s1 = question s" by (simp add: s1 web_session_def)
  let ?c = "ChatgptWebApi (question s) s1 tok"
  have "onMessage im e \<lparr>msg_session = Some s\<rparr> w =
      (case backend_throws e of None \<Rightarrow> emit (EvBackend ?c) w2
       | Some m \<Rightarrow> on_error (Error m) (emit (EvBackend ?c) w2))"
    using web g a q by (simp add: onMessage_def dispatch_def call_backend_def split: option.splits)
  then have "\<exists>tl. added w (onMessage im e \<lparr>msg_session = Some s\<rparr> w) =
      EvGetUserConfig # evs @ us @ EvBackend ?c # tl \<and> (\<forall>c. EvBackend c \<notin> set tl)"
    using evs us
    by (simp add: on_error_def cache_delete_def emit_def added_def split: option.splits)
  then show ?thesis
    using evs us s1 by auto
qed

lemma web_request_failed_quiet:
  assumes web: "modelName (stored_config e) \<in> set (chatgptWebModelKeys im)"
    and g: "getAccessToken e (emit EvGetUserConfig w) = (Inl err, w1)"
  shows "EvBackend c \<notin> set (added w (onMessage im e \<lparr>msg_session = Some s\<rparr> w))"
    and "EvUuid u \<notin> set (added w (onMessage im e \<lparr>msg_session = Some s\<rparr> w))"
proof -
  from credential_step(1) [OF g] obtain evs where
    evs: "trace w1 = trace w @ EvGetUserConfig # evs" "\<forall>c. EvBackend c \<notin> set evs"
      "\<forall>u. EvUuid u \<notin> set evs"
    by blast
  from on_error_added [OF evs(1), of err] obtain tl where
    tl: "added w (on_error err w1) = (EvGetUserConfig # evs) @ tl"
      "\<forall>c. EvBackend c \<notin> set tl" "\<forall>u. EvUuid u \<notin> set tl"
    by blast
  show "EvBackend c \<notin> set (added w (onMessage im e \<lparr>msg_session = Some s\<rparr> w))"
    using web_request_failed [OF web g] tl evs by simp
  show "EvUuid u \<notin> set (added w (onMessage im e \<lparr>msg_session = Some s\<rparr> w))"
    using web_request_failed [OF web g] tl evs by simp
qed



text \<open>
  C5, as stated, fails: a \<open>messageId\<close> the caller set is replaced on a web-session turn.
  The caller's session carries \<open>messageId = "caller-turn"\<close>; the session the backend is
  given carries the generated \<open>"id-xx"\<close>.
\<close>

theorem caller_messageId_overwritten:
  "messageId sample_session = Some (JStr ''caller-turn'')
   \<and> added world_cached
       (onMessage sample_imported sample_env \<lparr>msg_session = Some sample_session\<rparr> world_cached)
     = [EvGetUserConfig, EvCacheGet ''accessToken'', EvCacheGet ''accessToken'', EvUuid ''id-xx'',
        EvBackend (ChatgptWebApi ''why?''
          (sample_session\<lparr>messageId := Some (JStr ''id-xx'')\<rparr>) (Some (JStr ''tok-1'')))]"
  by (simp add: onMessage_def dispatch_def getAccessToken_def assign_ids_def uuidv4_def
      call_backend_def world_defs em_get_def added_def sample_env_def world_cached_def
      sample_imported_def sample_session_def KEY_ACCESS_TOKEN_def numeral_2_eq_2 Let_def)

text \<open>
  C5, amended. The session a backend call is given is the caller's session, changed only
  on a web-session turn and only in its two identifiers: \<open>messageId\<close> is replaced by a
  generated value on every such turn, \<open>parentMessageId\<close> is filled in when it is \<open>null\<close>
  or \<open>undefined\<close> and kept otherwise; \<open>question\<close> and every other field are the
  caller's, and for the other families the whole session is.
\<close>

theorem session_frame:
  assumes "EvBackend c \<in> set (added w (onMessage im e \<lparr>msg_session = Some s\<rparr> w))"
  shows "call_session c =
           (if modelName (stored_config e) \<in> set (chatgptWebModelKeys im)
            then s\<lparr>messageId := Some (JStr (uuid_values im (uuid_count w))),
                   parentMessageId :=
                     (if loose_null (parentMessageId s)
                      then Some (JStr (uuid_values im (Suc (uuid_count w))))
                      else parentMessageId s)\<rparr>
            else s)
       \<and> question (call_session c) = question s
       \<and> extra (call_session c) = extra s
       \<and> (\<not> loose_null (parentMessageId s) \<longrightarrow>
            parentMessageId (call_session c) = parentMessageId s)"
proof (cases "modelName (stored_config e) \<in> set (chatgptWebModelKeys im)")
  case True
  obtain r w1 where g: "getAccessToken e (emit EvGetUserConfig w) = (r, w1)"
    by (cases "getAccessToken e (emit EvGetUserConfig w)")
  show ?thesis
  proof (cases r)
    case (Inl err)
    with g web_request_failed_quiet(1) [OF True, of w err w1 c s] assms show ?thesis
      by simp
  next
    case (Inr tok)
    with g web_request_calls [OF True, of w tok w1 c s] assms
    have "c = ChatgptWebApi (question s) (web_session im (uuid_count w) s) tok"
      by simp
    with True show ?thesis by (simp add: web_session_def)
  qed
next
  case False
  from classify_not_web [OF False] show ?thesis
  proof
    assume "classify im (modelName (stored_config e)) = Unknown"
    from onMessage_unknown [OF this, of s w] assms show ?thesis
      by (simp add: emit_def added_def)
  next
    assume "classify im (modelName (stored_config e)) \<in> {Completion, ChatCompletion, Custom}"
    from token_request_added [OF this, of w s] assms False show ?thesis
      by (auto simp: failure_events_no_call)
  qed
qed

theorem session_frame_witness:
  "call_session (ChatgptWebApi ''why?''
      (sample_session\<lparr>messageId := Some (JStr ''id-xx'')\<rparr>) (Some (JStr ''tok-1'')))
     = sample_session\<lparr>messageId := Some (JStr ''id-xx'')\<rparr>
   \<and> parentMessageId (call_session (ChatgptWebApi ''why?''
      (sample_session\<lparr>messageId := Some (JStr ''id-xx'')\<rparr>) (Some (JStr ''tok-1''))))
     = Some (JStr ''caller-parent'')"
proof -
  have a: "added world_cached
       (onMessage sample_imported sample_env \<lparr>msg_session = Some sample_session\<rparr> world_cached)
     = [EvGetUserConfig, EvCacheGet ''accessToken'', EvCacheGet ''accessToken'', EvUuid ''id-xx'',
        EvBackend (ChatgptWebApi ''why?''
          (sample_session\<lparr>messageId := Some (JStr ''id-xx'')\<rparr>) (Some (JStr ''tok-1'')))]"
    by (simp add: onMessage_def dispatch_def getAccessToken_def assign_ids_def uuidv4_def
      call_backend_def world_defs em_get_def added_def sample_env_def world_cached_def
      sample_imported_def sample_session_def KEY_ACCESS_TOKEN_def numeral_2_eq_2 Let_def)
  have m: "EvBackend (ChatgptWebApi ''why?''
          (sample_session\<lparr>messageId := Some (JStr ''id-xx'')\<rparr>) (Some (JStr ''tok-1'')))
    \<in> set (added world_cached
       (onMessage sample_imported sample_env \<lparr>msg_session = Some sample_session\<rparr> world_cached))"
    unfolding a by simp
  show ?thesis
    using session_frame [OF m] by (simp add: sample_session_def)
qed

lemma classify_member:
  "families_disjoint im \<Longrightarrow> k \<in> set (family_keys im f) \<Longrightarrow> classify im k = f"
  by (cases f) (auto simp: families_disjoint_def classify_def)

lemma classify_family_keys:
  "k \<in> valid_keys im \<Longrightarrow> k \<in> set (family_keys im (classify im k))"
  by (auto simp: valid_keys_def classify_def)

lemma classify_unknown: "classify im k = Unknown \<longleftrightarrow> k \<notin> valid_keys im"
  by (auto simp: valid_keys_def classify_def)

text \<open>
  C6. With disjoint membership lists, a valid key lies in the list of a family exactly when
  the chain takes that family's branch for it, and the chain takes no branch exactly for
  the keys in no list. For such a key the request is the configuration read and nothing
  else: no cache read, no network request, no backend call, no envelope.
\<close>

theorem unknown_key_no_action:
  assumes "families_disjoint im"
  shows "(\<forall>k f. k \<in> valid_keys im \<longrightarrow> (k \<in> set (family_keys im f) \<longleftrightarrow> classify im k = f))
       \<and> (\<forall>k. k \<notin> valid_keys im \<longleftrightarrow> classify im k = Unknown)
       \<and> (\<forall>(e::env) s w. modelName (stored_config e) \<notin> valid_keys im \<longrightarrow>
            onMessage im e \<lparr>msg_session = Some s\<rparr> w = emit EvGetUserConfig w)"
proof (intro conjI allI impI)
  fix k f assume "k \<in> valid_keys im"
  then show "k \<in> set (family_keys im f) \<longleftrightarrow> classify im k = f"
    using classify_member [OF assms] classify_family_keys by blast
next
  fix k show "k \<notin> valid_keys im \<longleftrightarrow> classify im k = Unknown"
    by (simp add: classify_unknown)
next
  fix e :: env and s w assume "modelName (stored_config e) \<notin> valid_keys im"
  then have "classify im (modelName (stored_config e)) = Unknown"
    by (simp add: classify_unknown)
  then show "onMessage im e \<lparr>msg_session = Some s\<rparr> w = emit EvGetUserConfig w"
    by (rule onMessage_unknown)
qed

theorem unknown_key_no_action_witness:
  "families_disjoint sample_imported
   \<and> classify sample_imported ''chatgptApi35'' = ChatCompletion
   \<and> ''chatgptApi35'' \<notin> set (family_keys sample_imported WebSession)
   \<and> onMessage sample_imported
       (sample_env\<lparr>stored_config := \<lparr>modelName = ''no-such-model'', apiKey = ''sk-1'', accessToken = None\<rparr>\<rparr>)
       \<lparr>msg_session = Some sample_session\<rparr> world_cached
     = world_cached\<lparr>trace := [EvGetUserConfig]\<rparr>"
proof -
  have d: "families_disjoint sample_imported"
    by (simp add: families_disjoint_def sample_imported_def)
  have v: "''chatgptApi35'' \<in> valid_keys sample_imported"
    "''no-such-model'' \<notin> valid_keys sample_imported"
    by (simp_all add: valid_keys_def sample_imported_def)
  have c: "classify sample_imported ''chatgptApi35'' = ChatCompletion"
    by (simp add: classify_def sample_imported_def)
  show ?thesis
    using unknown_key_no_action [OF d] d v c
    by (simp add: sample_env_def emit_def world_cached_def sample_imported_def)
qed

text \<open>
  C9. A message whose envelope has no session payload leaves the world as it is: the
  configuration is not read, no backend is called, nothing is posted.
\<close>

theorem no_session_ignored:
  "onMessage im e \<lparr>msg_session = None\<rparr> w = w"
  by (simp add: onMessage_def)

section \<open>The context menu: properties\<close>

lemma menus_create:
  "menus (create it b) =
     (if item_id it \<in> set (map item_id (menus b)) then menus b else menus b @ [it])"
  by (simp add: create_def)

lemma listeners_create: "click_listeners (create it b) = click_listeners b"
  by (simp add: create_def)

lemma menus_fold_create:
  "menus b = menus b' \<Longrightarrow>
     menus (fold (\<lambda>x. create (f x)) xs b) = menus (fold (\<lambda>x. create (f x)) xs b')"
  by (induction xs arbitrary: b b') (simp_all add: menus_create)

lemma listeners_fold_create:
  "click_listeners (fold (\<lambda>x. create (f x)) xs b) = click_listeners b"
  by (induction xs arbitrary: b) (simp_all add: listeners_create)

lemma menus_create_cong:
  "menus b = menus b' \<Longrightarrow> menus (create it b) = menus (create it b')"
  by (simp add: menus_create)

lemma menus_refreshMenu: "menus (refreshMenu cfg b) = menus (refreshMenu cfg b')"
proof -
  let ?root = "\<lparr>item_id = menu_root, item_parentId = None, item_title = Some ''ChatGPTBox'',
      item_contexts = [''all''], item_type = None\<rparr>"
  let ?tools = "fold (\<lambda>kv. create (tool_item kv)) (menuConfig cfg)"
  let ?sel = "fold (\<lambda>i. create (selection_item cfg i)) [0..<length (selectionTools cfg)]"
  have "menus (removeAll_menus b) = menus (removeAll_menus b')"
    by (simp add: removeAll_menus_def)
  then have "menus (create ?root (removeAll_menus b)) = menus (create ?root (removeAll_menus b'))"
    by (rule menus_create_cong)
  then have "menus (?tools (create ?root (removeAll_menus b)))
      = menus (?tools (create ?root (removeAll_menus b')))"
    by (rule menus_fold_create)
  then have "menus (create separator_item (?tools (create ?root (removeAll_menus b))))
      = menus (create separator_item (?tools (create ?root (removeAll_menus b'))))"
    by (rule menus_create_cong)
  then have "menus (?sel (create separator_item (?tools (create ?root (removeAll_menus b)))))
      = menus (?sel (create separator_item (?tools (create ?root (removeAll_menus b')))))"
    by (rule menus_fold_create)
  then show ?thesis
    by (simp add: refreshMenu_def Let_def addListener_def)
qed

lemma listeners_refreshMenu:
  "click_listeners (refreshMenu cfg b) = click_listeners b @ [menu_root]"
  by (simp add: refreshMenu_def Let_def addListener_def listeners_fold_create listeners_create
      removeAll_menus_def)

text \<open>
  C8. Rebuilding twice gives the menu tree that rebuilding once gives. The click
  behaviour differs: every rebuild registers one more listener of
  \<open>contextMenus.onClicked\<close>, so after the rebuild at load one click sends one message,
  and after one more rebuild one click sends two.
\<close>

theorem refreshMenu_twice_click:
  "menus (refreshMenu cfg (refreshMenu cfg b)) = menus (refreshMenu cfg b)
   \<and> click (refreshMenu cfg browser_start) info tab_id = [on_click menu_root info tab_id]
   \<and> click (refreshMenu cfg (refreshMenu cfg browser_start)) info tab_id =
       [on_click menu_root info tab_id, on_click menu_root info tab_id]
   \<and> click (refreshMenu sample_menu (refreshMenu sample_menu browser_start)) sample_click 7 =
       [(7, CREATE_MENU ''translate'' (Some (JStr ''hello''))),
        (7, CREATE_MENU ''translate'' (Some (JStr ''hello'')))]"
proof -
  have "on_click menu_root sample_click 7 = (7, CREATE_MENU ''translate'' (Some (JStr ''hello'')))"
    by (simp add: on_click_def menu_root_def sample_click_def)
  then show ?thesis
    using menus_refreshMenu [of cfg "refreshMenu cfg b" b]
    by (simp add: click_def listeners_refreshMenu browser_start_def)
qed

end
